theory Spec2Isabelle
  imports Complex_Main "HOL-Library.Sublist" "HOL-Library.Multiset" "HOL-Library.Log_Nat"
begin

section \<open>MIDI processing utilities: the notation encoders and the summary\<close>

text \<open>
  A shallow embedding of \<^verbatim>\<open>services/midiProcessor\<close>: \<^verbatim>\<open>convertNoteToABC\<close>,
  \<^verbatim>\<open>convertMidiToABC\<close>, \<^verbatim>\<open>convertMidiToVexFlow\<close> and \<^verbatim>\<open>getMidiSummary\<close>.

  Conventions of the embedding.
  \<^item> A JavaScript number that holds a time or a duration is a rational: every finite
    double is one, the thresholds \<open>0.25\<close>, \<open>0.5\<close>, \<open>1\<close>, \<open>2\<close> are doubles, and the sign of
    \<open>a - b\<close> on finite doubles is the sign of the exact difference. \<open>NaN\<close> and the
    infinities are outside the model. The product \<open>duration * 100\<close> of
    \<^verbatim>\<open>getMidiSummary\<close> is the double product: the exact product rounded to \<open>53\<close> bits.
  \<^item> A field that the code tests before use (\<^verbatim>\<open>midiData.name ||\<close>,
    \<^verbatim>\<open>midiData.tracks &&\<close>, \<^verbatim>\<open>track.instrument?.name ||\<close>) is an \<open>option\<close>;
    \<open>None\<close> is \<^verbatim>\<open>undefined\<close>. The argument \<^verbatim>\<open>midiData\<close> itself may be \<^verbatim>\<open>null\<close>.
  \<^item> A property read on \<^verbatim>\<open>null\<close> or \<^verbatim>\<open>undefined\<close> throws \<open>TypeError\<close>; each
    exported function is a \<open>try\<close> body returning \<open>js_error + result\<close>, wrapped by its
    \<open>catch\<close> branch.
  \<^item> \<open>noteMap\<close> is the table of the twelve own keys of the object literal. The encoders
    on models and \<open>convertNoteToABC\<close> are the code on the notes of the data model, whose
    names are pitch names; \<open>convertNoteToABC_try\<close> is the code on a note of any name,
    where the property read also answers the names that every object inherits, and it
    agrees with \<open>convertNoteToABC\<close> on every name whose pitch class is not inherited.
  \<^item> A note object is a \<open>midi_note\<close>. Field names that two objects share are prefixed
    (\<open>midi_name\<close>, \<open>track_name\<close>, \<open>midi_duration\<close>), and the notes of a track
    are its \<open>track_notes\<close>.
\<close>

subsection \<open>Data\<close>

datatype js_error = TypeError

record midi_note =
  name :: string
  midi :: nat
  time :: rat
  duration :: rat
  velocity :: rat

record instrument_obj =
  instrument_name :: "string option"

record track =
  track_name :: "string option"
  instrument :: "instrument_obj option"
  track_notes :: "midi_note list"

record midiData =
  midi_name :: "string option"
  midi_duration :: rat
  tracks :: "track list option"

subsection \<open>Strings and regular expressions used by the code\<close>

definition NL :: char where
  "NL = CHR 0x0A"

definition apostrophe :: char where
  "apostrophe = CHR 0x27"

definition is_digit :: "char \<Rightarrow> bool" where
  "is_digit c = (c \<in> set ''0123456789'')"

definition not_digit :: "char \<Rightarrow> bool" where
  "not_digit c = (\<not> is_digit c)"

definition digit_val :: "char \<Rightarrow> nat" where
  "digit_val c = of_char c - 48"

text \<open>\<^verbatim>\<open>s.replace(/\d+/, '')\<close>: the first maximal run of digits is removed.\<close>

definition remove_digits :: "string \<Rightarrow> string" where
  "remove_digits s = takeWhile not_digit s @ dropWhile is_digit (dropWhile not_digit s)"

text \<open>\<^verbatim>\<open>s.match(/\d+/)?.[0]\<close>: the first maximal run of digits, \<open>None\<close> for \<^verbatim>\<open>undefined\<close>.\<close>

definition match_digits :: "string \<Rightarrow> string option" where
  "match_digits s =
     (let r = takeWhile is_digit (dropWhile not_digit s)
      in if r = [] then None else Some r)"

text \<open>\<^verbatim>\<open>parseInt\<close> on a run of decimal digits.\<close>

definition parseInt :: "string \<Rightarrow> nat" where
  "parseInt ds = foldl (\<lambda>n c. 10 * n + digit_val c) 0 ds"

text \<open>\<^verbatim>\<open>parseInt(note.name.match(/\d+/)?.[0]) || 4\<close>: \<open>NaN\<close> and \<open>0\<close> are both falsy.\<close>

definition octave_of :: "string \<Rightarrow> nat" where
  "octave_of s =
     (case match_digits s of
        None \<Rightarrow> 4
      | Some ds \<Rightarrow> (let n = parseInt ds in if n = 0 then 4 else n))"

text \<open>\<^verbatim>\<open>s.replace(/(\d+)/, '/$1')\<close>: a slash goes in front of the first run of digits.\<close>

definition slash_digits :: "string \<Rightarrow> string" where
  "slash_digits s =
     (let pre = takeWhile not_digit s; rest = dropWhile not_digit s
      in if rest = [] then s else pre @ ''/'' @ rest)"

definition lower_char :: "char \<Rightarrow> char" where
  "lower_char c =
     (if (65::nat) \<le> of_char c \<and> of_char c \<le> (90::nat) then char_of (of_char c + (32::nat)) else c)"

definition toLowerCase :: "string \<Rightarrow> string" where
  "toLowerCase s = map lower_char s"

subsection \<open>convertNoteToABC\<close>

text \<open>The own keys of the object literal \<^verbatim>\<open>noteMap\<close>.\<close>

definition noteMap :: "string \<rightharpoonup> string" where
  "noteMap = map_of
     [(''C'', ''C''), (''C#'', ''^C''), (''D'', ''D''), (''D#'', ''^D''), (''E'', ''E''),
      (''F'', ''F''), (''F#'', ''^F''), (''G'', ''G''), (''G#'', ''^G''), (''A'', ''A''),
      (''A#'', ''^A''), (''B'', ''B'')]"

text \<open>\<^verbatim>\<open>for (let i = lo; i < hi; i++) { s += c }\<close>\<close>

function append_loop :: "nat \<Rightarrow> nat \<Rightarrow> char \<Rightarrow> string \<Rightarrow> string" where
  "append_loop i hi c s = (if i < hi then append_loop (Suc i) hi c (s @ [c]) else s)"
  by pat_completeness auto
termination
  by (relation "measure (\<lambda>(i, hi, c, s). hi - i)") auto

declare append_loop.simps [simp del]

text \<open>\<^verbatim>\<open>noteMap[noteName] || 'C'\<close>, for a pitch name.\<close>

definition abc_pitch_class :: "string \<Rightarrow> string" where
  "abc_pitch_class noteName =
     (case noteMap noteName of None \<Rightarrow> ''C'' | Some s \<Rightarrow> (if s = [] then ''C'' else s))"

text \<open>The octave block of \<^verbatim>\<open>convertNoteToABC\<close>.\<close>

definition abc_octave :: "nat \<Rightarrow> string \<Rightarrow> string" where
  "abc_octave octave abcNote =
     (if octave \<ge> 5 then append_loop 5 octave apostrophe (toLowerCase abcNote)
      else if octave < 4 then append_loop octave 4 (CHR '','') abcNote
      else abcNote)"

text \<open>The duration block of \<^verbatim>\<open>convertNoteToABC\<close>.\<close>

definition abc_duration :: "rat \<Rightarrow> string" where
  "abc_duration d =
     (if d < 0.25 then ''/4''
      else if d < 0.5 then ''/2''
      else if d < 1 then ''''
      else if d < 2 then ''2''
      else ''4'')"

text \<open>
  \<^verbatim>\<open>convertNoteToABC\<close> on a note of the data model, whose name is a pitch name and so
  never a name that \<^verbatim>\<open>noteMap\<close> inherits; \<open>convertNoteToABC_try\<close> below is the function
  on a note of any name.
\<close>

definition convertNoteToABC :: "midi_note \<Rightarrow> string" where
  "convertNoteToABC n =
     (let noteName = remove_digits (name n);
          octave = octave_of (name n);
          abcNote = abc_pitch_class noteName
      in abc_octave octave abcNote @ abc_duration (duration n))"

text \<open>The duration block of \<^verbatim>\<open>convertMidiToVexFlow\<close>.\<close>

definition vex_duration :: "rat \<Rightarrow> string" where
  "vex_duration d =
     (if d < 0.25 then ''16''
      else if d < 0.5 then ''8''
      else if d < 1 then ''q''
      else if d < 2 then ''h''
      else ''w'')"

record vexFlowNote =
  keys :: "string list"
  vex_duration_code :: string
  vex_midi :: nat
  vex_time :: rat

definition to_vexFlowNote :: "midi_note \<Rightarrow> vexFlowNote" where
  "to_vexFlowNote n =
     \<lparr>keys = [slash_digits (name n)],
      vex_duration_code = vex_duration (duration n),
      vex_midi = midi n,
      vex_time = time n\<rparr>"

subsection \<open>convertNoteToABC on any name\<close>

text \<open>
  \<^verbatim>\<open>noteMap\<close> is an object literal, so \<^verbatim>\<open>noteMap[noteName]\<close> is a property read: it
  answers the twelve own keys and also every name that an object inherits from
  \<^verbatim>\<open>Object.prototype\<close>. An inherited property is a function (or, for \<^verbatim>\<open>__proto__\<close>, the
  prototype object): it is truthy, so \<^verbatim>\<open>|| 'C'\<close> keeps it, it has no \<^verbatim>\<open>toLowerCase\<close>, and
  \<^verbatim>\<open>+=\<close> turns it into its text.
\<close>

definition Object_prototype_names :: "string list" where
  "Object_prototype_names =
     [''constructor'', ''hasOwnProperty'', ''isPrototypeOf'', ''propertyIsEnumerable'',
      ''toLocaleString'', ''toString'', ''valueOf'', ''__proto__'', ''__defineGetter__'',
      ''__defineSetter__'', ''__lookupGetter__'', ''__lookupSetter__'']"

text \<open>
  A value read from \<^verbatim>\<open>noteMap\<close>: a string, or the object inherited under a name.
\<close>

datatype js_value = Str string | Obj string

text \<open>\<^verbatim>\<open>noteMap[noteName]\<close>, \<open>None\<close> for \<^verbatim>\<open>undefined\<close>.\<close>

definition noteMap_get :: "string \<Rightarrow> js_value option" where
  "noteMap_get noteName =
     (case noteMap noteName of
        Some s \<Rightarrow> Some (Str s)
      | None \<Rightarrow> (if noteName \<in> set Object_prototype_names then Some (Obj noteName) else None))"

text \<open>\<^verbatim>\<open>noteMap[noteName] || 'C'\<close>\<close>

definition abcNote_of :: "string \<Rightarrow> js_value" where
  "abcNote_of noteName =
     (case noteMap_get noteName of
        None \<Rightarrow> Str ''C''
      | Some (Str s) \<Rightarrow> (if s = [] then Str ''C'' else Str s)
      | Some (Obj k) \<Rightarrow> Obj k)"

text \<open>
  A string that the function returns: plain text, or the text of the object inherited
  under a name (which the engine chooses) followed by the characters appended to it.
\<close>

datatype js_text = Text string | ObjText string string

text \<open>
  \<^verbatim>\<open>convertNoteToABC\<close> on a note of any name. On a string the octave and duration blocks
  are those above. On an inherited object \<^verbatim>\<open>abcNote.toLowerCase()\<close> throws at an octave
  of \<open>5\<close> or more; below, the commas of the octave block and the duration suffix are
  appended to the text of the object.
\<close>

definition convertNoteToABC_try :: "midi_note \<Rightarrow> js_error + js_text" where
  "convertNoteToABC_try n =
     (let noteName = remove_digits (name n);
          octave = octave_of (name n)
      in case abcNote_of noteName of
           Str s \<Rightarrow> Inr (Text (abc_octave octave s @ abc_duration (duration n)))
         | Obj k \<Rightarrow>
             (if octave \<ge> 5 then Inl TypeError
              else Inr (ObjText k ((if octave < 4 then append_loop octave 4 (CHR '','') []
                                    else []) @ abc_duration (duration n)))))"

subsection \<open>Sorting by time\<close>

text \<open>
  \<^verbatim>\<open>Array.prototype.sort(compareFn)\<close> is a stable sort: an element moves in front of another
  only when the comparator says that it is smaller. It is modelled by insertion from the
  right, where an element passes every element that \<open>compareFn\<close> puts before it
  (\<open>compareFn x y > 0\<close>).
\<close>

fun js_insert :: "('a \<Rightarrow> 'a \<Rightarrow> rat) \<Rightarrow> 'a \<Rightarrow> 'a list \<Rightarrow> 'a list" where
  "js_insert compareFn x [] = [x]"
| "js_insert compareFn x (y # ys) =
     (if compareFn x y > 0 then y # js_insert compareFn x ys else x # y # ys)"

definition js_sort :: "('a \<Rightarrow> 'a \<Rightarrow> rat) \<Rightarrow> 'a list \<Rightarrow> 'a list" where
  "js_sort compareFn xs = foldr (js_insert compareFn) xs []"

text \<open>\<^verbatim>\<open>(a, b) => a.time - b.time\<close>\<close>

definition by_time :: "midi_note \<Rightarrow> midi_note \<Rightarrow> rat" where
  "by_time a b = time a - time b"

text \<open>\<^verbatim>\<open>[...firstTrack.notes].sort((a, b) => a.time - b.time)\<close>, as a value.\<close>

definition sortedNotes :: "track \<Rightarrow> midi_note list" where
  "sortedNotes firstTrack = js_sort by_time (track_notes firstTrack)"

subsection \<open>convertMidiToABC\<close>

text \<open>\<^verbatim>\<open>s || d\<close> on an optional string: \<^verbatim>\<open>undefined\<close> and the empty string are falsy.\<close>

definition or_default :: "string option \<Rightarrow> string \<Rightarrow> string" where
  "or_default s d = (case s of None \<Rightarrow> d | Some v \<Rightarrow> (if v = [] then d else v))"

definition abc_header :: "string option \<Rightarrow> string" where
  "abc_header midi_name_field =
     ''X:1'' @ [NL] @
     ''T:'' @ or_default midi_name_field ''Transcribed Audio'' @ [NL] @
     ''M:4/4'' @ [NL] @
     ''L:1/4'' @ [NL] @
     ''K:C'' @ [NL]"

text \<open>
  The body of \<^verbatim>\<open>sortedNotes.forEach((note, index) => ...)\<close>: one step for the note at
  \<open>index\<close> of an array of length \<open>len\<close>, on the string built so far.
\<close>

definition abc_step :: "nat \<Rightarrow> nat \<Rightarrow> midi_note \<Rightarrow> string \<Rightarrow> string" where
  "abc_step len index n abcNotation =
     (let a1 = abcNotation @ convertNoteToABC n;
          a2 = (if int index < int len - 1 then a1 @ '' '' else a1);
          a3 = (if (index + 1) mod 8 = 0 then a2 @ [NL] else a2)
      in a3)"

fun abc_forEach :: "nat \<Rightarrow> nat \<Rightarrow> midi_note list \<Rightarrow> string \<Rightarrow> string" where
  "abc_forEach len index [] abcNotation = abcNotation"
| "abc_forEach len index (n # ns) abcNotation =
     abc_forEach len (index + 1) ns (abc_step len index n abcNotation)"

definition convertMidiToABC_try :: "midiData option \<Rightarrow> js_error + string" where
  "convertMidiToABC_try midiData =
     (case midiData of
        None \<Rightarrow> Inl TypeError
      | Some md \<Rightarrow>
          (let abcNotation = abc_header (midi_name md)
           in case tracks md of
                None \<Rightarrow> Inr abcNotation
              | Some [] \<Rightarrow> Inr abcNotation
              | Some (firstTrack # _) \<Rightarrow>
                  (let sorted_notes = sortedNotes firstTrack
                   in Inr (abc_forEach (length sorted_notes) 0 sorted_notes abcNotation))))"

definition abc_fallback :: string where
  "abc_fallback =
     ''X:1'' @ [NL] @ ''T:Error'' @ [NL] @ ''M:4/4'' @ [NL] @ ''L:1/4'' @ [NL] @ ''K:C'' @ [NL] @ ''z4''"

definition convertMidiToABC :: "midiData option \<Rightarrow> string" where
  "convertMidiToABC midiData =
     (case convertMidiToABC_try midiData of Inl error \<Rightarrow> abc_fallback | Inr abcNotation \<Rightarrow> abcNotation)"

subsection \<open>convertMidiToVexFlow\<close>

text \<open>\<^verbatim>\<open>sortedNotes.forEach(note => { ...; vexFlowNotes.push(vexFlowNote) })\<close>\<close>

fun vex_forEach :: "midi_note list \<Rightarrow> vexFlowNote list \<Rightarrow> vexFlowNote list" where
  "vex_forEach [] vexFlowNotes = vexFlowNotes"
| "vex_forEach (n # ns) vexFlowNotes = vex_forEach ns (vexFlowNotes @ [to_vexFlowNote n])"

definition convertMidiToVexFlow_try :: "midiData option \<Rightarrow> js_error + vexFlowNote list" where
  "convertMidiToVexFlow_try midiData =
     (case midiData of
        None \<Rightarrow> Inl TypeError
      | Some md \<Rightarrow>
          (case tracks md of
             None \<Rightarrow> Inr []
           | Some [] \<Rightarrow> Inr []
           | Some (firstTrack # _) \<Rightarrow> Inr (vex_forEach (sortedNotes firstTrack) [])))"

definition convertMidiToVexFlow :: "midiData option \<Rightarrow> vexFlowNote list" where
  "convertMidiToVexFlow midiData =
     (case convertMidiToVexFlow_try midiData of Inl error \<Rightarrow> [] | Inr vexFlowNotes \<Rightarrow> vexFlowNotes)"

subsection \<open>Double arithmetic\<close>

text \<open>
  The product \<^verbatim>\<open>midiData.duration * 100\<close> is a product of doubles: the exact product
  rounded to the nearest number with a significand of \<open>53\<close> bits, a tie going to the even
  significand. The exponent range is not bounded here: an overflow to infinity is outside
  the model, and below the normal range \<^verbatim>\<open>Math.round\<close> gives \<open>0\<close> either way.
\<close>

definition round_half_even :: "rat \<Rightarrow> int" where
  "round_half_even m =
     (let f = \<lfloor>m\<rfloor>; d = m - of_int f
      in if d < 1 / 2 then f else if 1 / 2 < d then f + 1 else if even f then f else f + 1)"

text \<open>The binary exponent of a positive number \<open>x\<close>: the \<open>e\<close> with \<open>2 ^ e \<le> x < 2 ^ (e + 1)\<close>.\<close>

definition binary_exponent :: "rat \<Rightarrow> int" where
  "binary_exponent x =
     (let e = bitlen (fst (quotient_of x)) - bitlen (snd (quotient_of x))
      in if 2 powi e \<le> x then e else e - 1)"

definition to_double :: "rat \<Rightarrow> rat" where
  "to_double x =
     (if x = 0 then 0
      else (let a = \<bar>x\<bar>; ulp = 2 powi (binary_exponent a - 52)
            in sgn x * of_int (round_half_even (a / ulp)) * ulp))"

text \<open>\<^verbatim>\<open>a * b\<close> on doubles.\<close>

definition double_times :: "rat \<Rightarrow> rat \<Rightarrow> rat" where
  "double_times a b = to_double (a * b)"

subsection \<open>getMidiSummary\<close>

record midiSummary =
  summary_name :: string
  summary_duration :: string
  summary_tracks :: nat
  totalNotes :: nat
  instruments :: string

text \<open>\<^verbatim>\<open>Math.round\<close>: the nearest integer, a tie going up.\<close>

definition math_round :: "rat \<Rightarrow> int" where
  "math_round x = \<lfloor>x + 1 / 2\<rfloor>"

definition digit_char :: "nat \<Rightarrow> char" where
  "digit_char d = char_of (48 + d)"

fun show_nat :: "nat \<Rightarrow> string" where
  "show_nat n = (if n < 10 then [digit_char n] else show_nat (n div 10) @ [digit_char (n mod 10)])"

declare show_nat.simps [simp del]

text \<open>
  The text of a number in a template literal, for a number of at most two decimals (what
  \<^verbatim>\<open>Math.round(x * 100) / 100\<close> yields): the integer part, then the decimals without
  trailing zeros; minus zero prints as \<open>0\<close>. The double nearest to \<open>k / 100\<close> prints as the
  decimal \<open>k / 100\<close> as long as it has at most \<open>15\<close> significant digits; larger numbers
  are outside the model.
\<close>

definition number_to_string :: "rat \<Rightarrow> string" where
  "number_to_string r =
     (let k = \<lfloor>r * 100\<rfloor>; a = nat \<bar>k\<bar>; whole = a div 100; frac = a mod 100
      in (if k < 0 then ''-'' else '''') @ show_nat whole @
         (if frac = 0 then ''''
          else ''.'' @ [digit_char (frac div 10)] @
               (if frac mod 10 = 0 then '''' else [digit_char (frac mod 10)])))"

text \<open>
  The number that a decimal text denotes: an optional minus sign, the digits of the whole
  part and, after a point, the digits of the decimals. The text of \<^verbatim>\<open>getMidiSummary\<close> is
  read back with it below.
\<close>

definition decimal_value :: "string \<Rightarrow> rat" where
  "decimal_value s =
     (let negative = (take 1 s = ''-'');
          u = (if negative then drop 1 s else s);
          whole = takeWhile (\<lambda>c. c \<noteq> CHR ''.'') u;
          frac = drop 1 (dropWhile (\<lambda>c. c \<noteq> CHR ''.'') u);
          v = of_nat (parseInt whole) + of_nat (parseInt frac) / 10 ^ length frac
      in if negative then - v else v)"

text \<open>\<^verbatim>\<open>strings.join(sep)\<close>\<close>

fun js_join :: "string \<Rightarrow> string list \<Rightarrow> string" where
  "js_join sep [] = ''''"
| "js_join sep [x] = x"
| "js_join sep (x # y # ys) = x @ sep @ js_join sep (y # ys)"

text \<open>\<^verbatim>\<open>track.instrument?.name || 'Piano'\<close>\<close>

definition instrument_label :: "track \<Rightarrow> string" where
  "instrument_label t =
     or_default (case instrument t of None \<Rightarrow> None | Some i \<Rightarrow> instrument_name i) ''Piano''"

definition getMidiSummary_try :: "midiData option \<Rightarrow> js_error + midiSummary" where
  "getMidiSummary_try midiData =
     (case midiData of
        None \<Rightarrow> Inl TypeError
      | Some md \<Rightarrow>
          (case tracks md of
             None \<Rightarrow> Inl TypeError
           | Some ts \<Rightarrow>
               (let total = foldl (\<lambda>sum t. sum + length (track_notes t)) 0 ts;
                    trackCount = length ts;
                    dur = of_int (math_round (double_times (midi_duration md) 100)) / 100
                in Inr \<lparr>summary_name = or_default (midi_name md) ''Transcribed Audio'',
                        summary_duration = number_to_string dur @ '' seconds'',
                        summary_tracks = trackCount,
                        totalNotes = total,
                        instruments = js_join '', '' (map instrument_label ts)\<rparr>)))"

definition summary_fallback :: midiSummary where
  "summary_fallback =
     \<lparr>summary_name = ''Unknown'', summary_duration = ''0 seconds'', summary_tracks = 0,
      totalNotes = 0, instruments = ''Unknown''\<rparr>"

definition getMidiSummary :: "midiData option \<Rightarrow> midiSummary" where
  "getMidiSummary midiData =
     (case getMidiSummary_try midiData of Inl error \<Rightarrow> summary_fallback | Inr s \<Rightarrow> s)"

subsection \<open>The encoders on a store of arrays\<close>

text \<open>
  Arrays are objects: \<^verbatim>\<open>firstTrack.notes\<close> is a reference, \<^verbatim>\<open>[...a]\<close> allocates a new
  array and \<^verbatim>\<open>a.sort(f)\<close> sorts \<open>a\<close> in place and returns \<open>a\<close>. The store is the list
  of the allocated note arrays, an address is an index into it, and an allocation appends.
  A track holds the address of its notes; an address that is not allocated stands for a
  \<^verbatim>\<open>notes\<close> field that is \<^verbatim>\<open>undefined\<close>, on which the spread throws.
\<close>

type_synonym array_store = "midi_note list list"

record track_ref =
  ref_track_name :: "string option"
  ref_instrument :: "instrument_obj option"
  notes_ref :: nat

record midiData_ref =
  ref_midi_name :: "string option"
  ref_midi_duration :: rat
  ref_tracks :: "track_ref list option"

text \<open>\<^verbatim>\<open>[...a]\<close>\<close>

definition spread :: "array_store \<Rightarrow> nat \<Rightarrow> js_error + array_store \<times> nat" where
  "spread h a = (if a < length h then Inr (h @ [h ! a], length h) else Inl TypeError)"

text \<open>\<^verbatim>\<open>a.sort(compareFn)\<close>\<close>

definition sort_in_place :: "(midi_note \<Rightarrow> midi_note \<Rightarrow> rat) \<Rightarrow> array_store \<Rightarrow> nat \<Rightarrow> array_store" where
  "sort_in_place compareFn h a = h[a := js_sort compareFn (h ! a)]"

text \<open>\<^verbatim>\<open>const sortedNotes = [...firstTrack.notes].sort((a, b) => a.time - b.time)\<close>\<close>

definition sortedNotes_store :: "array_store \<Rightarrow> track_ref \<Rightarrow> js_error + array_store \<times> nat" where
  "sortedNotes_store h firstTrack =
     (case spread h (notes_ref firstTrack) of
        Inl error \<Rightarrow> Inl error
      | Inr (h1, copy) \<Rightarrow> Inr (sort_in_place by_time h1 copy, copy))"

definition convertMidiToABC_store_try ::
  "array_store \<Rightarrow> midiData_ref option \<Rightarrow> array_store \<times> (js_error + string)" where
  "convertMidiToABC_store_try h midiData =
     (case midiData of
        None \<Rightarrow> (h, Inl TypeError)
      | Some md \<Rightarrow>
          (let abcNotation = abc_header (ref_midi_name md)
           in case ref_tracks md of
                None \<Rightarrow> (h, Inr abcNotation)
              | Some [] \<Rightarrow> (h, Inr abcNotation)
              | Some (firstTrack # _) \<Rightarrow>
                  (case sortedNotes_store h firstTrack of
                     Inl error \<Rightarrow> (h, Inl error)
                   | Inr (h2, a) \<Rightarrow>
                       (let sorted_notes = h2 ! a
                        in (h2, Inr (abc_forEach (length sorted_notes) 0 sorted_notes abcNotation))))))"

definition convertMidiToABC_store :: "array_store \<Rightarrow> midiData_ref option \<Rightarrow> array_store \<times> string" where
  "convertMidiToABC_store h midiData =
     (case convertMidiToABC_store_try h midiData of
        (h', Inl error) \<Rightarrow> (h', abc_fallback)
      | (h', Inr abcNotation) \<Rightarrow> (h', abcNotation))"

definition convertMidiToVexFlow_store_try ::
  "array_store \<Rightarrow> midiData_ref option \<Rightarrow> array_store \<times> (js_error + vexFlowNote list)" where
  "convertMidiToVexFlow_store_try h midiData =
     (case midiData of
        None \<Rightarrow> (h, Inl TypeError)
      | Some md \<Rightarrow>
          (case ref_tracks md of
             None \<Rightarrow> (h, Inr [])
           | Some [] \<Rightarrow> (h, Inr [])
           | Some (firstTrack # _) \<Rightarrow>
               (case sortedNotes_store h firstTrack of
                  Inl error \<Rightarrow> (h, Inl error)
                | Inr (h2, a) \<Rightarrow> (h2, Inr (vex_forEach (h2 ! a) [])))))"

definition convertMidiToVexFlow_store ::
  "array_store \<Rightarrow> midiData_ref option \<Rightarrow> array_store \<times> vexFlowNote list" where
  "convertMidiToVexFlow_store h midiData =
     (case convertMidiToVexFlow_store_try h midiData of
        (h', Inl error) \<Rightarrow> (h', [])
      | (h', Inr vexFlowNotes) \<Rightarrow> (h', vexFlowNotes))"

text \<open>The model that a store and a model of references stand for.\<close>

definition load_track :: "array_store \<Rightarrow> track_ref \<Rightarrow> track" where
  "load_track h t =
     \<lparr>track_name = ref_track_name t, instrument = ref_instrument t,
      track_notes = h ! notes_ref t\<rparr>"

definition load :: "array_store \<Rightarrow> midiData_ref \<Rightarrow> midiData" where
  "load h md =
     \<lparr>midi_name = ref_midi_name md, midi_duration = ref_midi_duration md,
      tracks = map_option (map (load_track h)) (ref_tracks md)\<rparr>"

text \<open>Every track of the model refers to an allocated array.\<close>

definition allocated :: "array_store \<Rightarrow> midiData_ref \<Rightarrow> bool" where
  "allocated h md =
     (case ref_tracks md of None \<Rightarrow> True | Some ts \<Rightarrow> list_all (\<lambda>t. notes_ref t < length h) ts)"

subsection \<open>The layout of the note tokens\<close>

text \<open>
  The layout of a sequence of tokens, stated on the tokens alone: token \<open>i\<close> (counted from
  \<open>0\<close>) is followed by one space unless it is the last one, and then by a line break when
  \<open>i + 1\<close> is a multiple of \<open>8\<close>. The loop of \<^verbatim>\<open>convertMidiToABC\<close> is compared with it below.
\<close>

definition abc_layout :: "string list \<Rightarrow> string" where
  "abc_layout toks =
     concat (map (\<lambda>(i, tok). tok @ (if i + 1 < length toks then '' '' else '''') @
                              (if (i + 1) mod 8 = 0 then [NL] else ''''))
                 (enumerate 0 toks))"

section \<open>Properties\<close>

subsection \<open>Loops and library functions\<close>

lemma append_loop_replicate: "append_loop i hi c s = s @ replicate (hi - i) c"
proof (induction i hi c s rule: append_loop.induct)
  case (1 i hi c s)
  show ?case
  proof (cases "i < hi")
    case True
    then have "hi - i = Suc (hi - Suc i)" by simp
    with True 1 show ?thesis
      by (simp add: append_loop.simps [of i] replicate_append_same)
  next
    case False
    then show ?thesis by (simp add: append_loop.simps [of i])
  qed
qed

lemma vex_forEach_map: "vex_forEach ns acc = acc @ map to_vexFlowNote ns"
  by (induction ns arbitrary: acc) simp_all

lemma js_insert_insort: "js_insert by_time x ys = insort_key time x ys"
  by (induction ys) (auto simp: by_time_def)

lemma js_sort_sort_key: "js_sort by_time xs = sort_key time xs"
  by (induction xs) (simp_all add: js_sort_def js_insert_insort)

lemma set_sortedNotes: "set (sortedNotes tr) = set (track_notes tr)"
  by (simp add: sortedNotes_def js_sort_sort_key)

lemma convertMidiToVexFlow_first:
  "tracks md = Some (tr # rest) \<Longrightarrow>
   convertMidiToVexFlow_try (Some md) = Inr (map to_vexFlowNote (sortedNotes tr))"
  by (simp add: convertMidiToVexFlow_try_def vex_forEach_map)

lemma convertMidiToABC_try_Some:
  "convertMidiToABC_try (Some md) = Inr (convertMidiToABC (Some md))"
  by (simp add: convertMidiToABC_try_def convertMidiToABC_def Let_def split: option.splits list.splits)

lemma convertMidiToVexFlow_try_Some:
  "convertMidiToVexFlow_try (Some md) = Inr (convertMidiToVexFlow (Some md))"
  by (simp add: convertMidiToVexFlow_try_def convertMidiToVexFlow_def split: option.splits list.splits)

lemma abc_step_piece:
  "index < len \<Longrightarrow>
   abc_step len index n acc =
     acc @ convertNoteToABC n @ (if index + 1 < len then '' '' else '''') @
       (if (index + 1) mod 8 = 0 then [NL] else '''')"
  by (auto simp: abc_step_def Let_def)

lemma abc_forEach_pieces:
  "i + length ns \<le> len \<Longrightarrow>
   abc_forEach len i ns acc =
     acc @ concat (map (\<lambda>(j, n). convertNoteToABC n @ (if j + 1 < len then '' '' else '''') @
                                 (if (j + 1) mod 8 = 0 then [NL] else ''''))
                       (enumerate i ns))"
proof (induction ns arbitrary: i acc)
  case Nil
  then show ?case by simp
next
  case (Cons n ns)
  from Cons.prems have "i < len" and "Suc i + length ns \<le> len" by simp_all
  then show ?case
    using Cons.IH [of "Suc i"] by (simp add: abc_step_piece)
qed

lemma enumerate_map_token:
  "enumerate i (map f ns) = map (\<lambda>(j, n). (j, f n)) (enumerate i ns)"
  by (induction ns arbitrary: i) simp_all

lemma abc_forEach_layout:
  "abc_forEach (length ns) 0 ns acc = acc @ abc_layout (map convertNoteToABC ns)"
  by (simp add: abc_forEach_pieces abc_layout_def enumerate_map_token comp_def case_prod_unfold)

lemma convertMidiToABC_first:
  "tracks md = Some (tr # rest) \<Longrightarrow>
   convertMidiToABC (Some md) =
     abc_header (midi_name md) @ abc_layout (map convertNoteToABC (sortedNotes tr))"
  by (simp add: convertMidiToABC_def convertMidiToABC_try_def abc_forEach_layout)

lemma foldl_note_count:
  "foldl (\<lambda>sum t. sum + length (track_notes t)) a ts =
   a + sum_list (map (\<lambda>t. length (track_notes t)) ts)"
  by (induction ts arbitrary: a) simp_all

lemma math_round_near: "\<bar>of_int (math_round x) - x\<bar> \<le> 1 / 2"
proof -
  have "of_int \<lfloor>x + 1 / 2\<rfloor> \<le> x + 1 / 2" and "x + 1 / 2 < of_int \<lfloor>x + 1 / 2\<rfloor> + 1"
    by linarith+
  then show ?thesis
    unfolding math_round_def by linarith
qed

lemma round_half_even_near: "\<bar>of_int (round_half_even m) - m\<bar> \<le> 1 / 2"
proof -
  have "of_int \<lfloor>m\<rfloor> \<le> m" and "m < of_int \<lfloor>m\<rfloor> + 1"
    by linarith+
  then show ?thesis
    unfolding round_half_even_def Let_def by (auto simp: abs_le_iff)
qed

lemma bitlen_power_bounds:
  assumes "0 < p"
  shows "(2::rat) powi (bitlen p - 1) \<le> of_int p" and "(of_int p :: rat) < 2 powi bitlen p"
proof -
  have "2 ^ nat (bitlen p - 1) \<le> p" and up: "p < 2 ^ nat (bitlen p)"
    using bitlen_bounds [OF assms] by simp_all
  then have "(of_int (2 ^ nat (bitlen p - 1)) :: rat) \<le> of_int p"
    by (simp only: of_int_le_iff)
  moreover have "1 \<le> bitlen p"
    using assms by (smt (verit) bitlen_eq_zero_iff bitlen_nonneg)
  ultimately show "(2::rat) powi (bitlen p - 1) \<le> of_int p"
    by (simp add: power_int_def)
  from up have "(of_int p :: rat) < of_int (2 ^ nat (bitlen p))"
    by (simp only: of_int_less_iff)
  then show "(of_int p :: rat) < 2 powi bitlen p"
    using bitlen_nonneg [of p] by (simp add: power_int_def)
qed

lemma binary_exponent_bounds:
  assumes "0 < x"
  shows "2 powi binary_exponent x \<le> x" and "x < 2 powi (binary_exponent x + 1)"
proof -
  obtain p q where pq: "quotient_of x = (p, q)"
    by (cases "quotient_of x")
  then have q: "0 < q" and x: "x = of_int p / of_int q"
    by (simp_all add: quotient_of_denom_pos quotient_of_div)
  with assms have p: "0 < p"
    by (simp add: zero_less_divide_iff)
  let ?e = "bitlen p - bitlen q"
  note bp = bitlen_power_bounds [OF p] and bq = bitlen_power_bounds [OF q]
  have "?e - 1 = (bitlen p - 1) - bitlen q"
    by simp
  then have "(2::rat) powi (?e - 1) = 2 powi (bitlen p - 1) / 2 powi bitlen q"
    by (simp only: power_int_diff [of "2::rat", simplified])
  also have "\<dots> \<le> of_int p / of_int q"
    using bp(1) bq(2) p q by (intro frac_le) simp_all
  finally have low: "(2::rat) powi (?e - 1) \<le> x"
    by (simp add: x)
  have "?e + 1 = bitlen p - (bitlen q - 1)"
    by simp
  then have "(2::rat) powi (?e + 1) = 2 powi bitlen p / 2 powi (bitlen q - 1)"
    by (simp only: power_int_diff [of "2::rat", simplified])
  moreover have "of_int p / of_int q < (2::rat) powi bitlen p / 2 powi (bitlen q - 1)"
    using bp(2) bq(1) p q by (intro frac_less) simp_all
  ultimately have high: "x < (2::rat) powi (?e + 1)"
    by (simp add: x)
  show "2 powi binary_exponent x \<le> x"
    using low pq by (simp add: binary_exponent_def Let_def)
  show "x < 2 powi (binary_exponent x + 1)"
    using high pq by (simp add: binary_exponent_def Let_def not_le)
qed

lemma to_double_near: "\<bar>to_double x - x\<bar> \<le> \<bar>x\<bar> / 2 ^ 53"
proof (cases "x = 0")
  case True
  then show ?thesis by (simp add: to_double_def)
next
  case False
  define a where "a = \<bar>x\<bar>"
  define ulp :: rat where "ulp = 2 powi (binary_exponent a - 52)"
  define m where "m = round_half_even (a / ulp)"
  from False have a: "0 < a" by (simp add: a_def)
  have ulp: "0 < ulp" by (simp add: ulp_def)
  have td: "to_double x = sgn x * of_int m * ulp"
    using False by (simp add: to_double_def Let_def a_def ulp_def m_def)
  have xs: "x = sgn x * a"
    by (simp add: a_def sgn_mult_abs)
  have "to_double x - x = sgn x * (of_int m * ulp - a)"
    by (subst (2) xs) (simp add: td algebra_simps)
  then have "\<bar>to_double x - x\<bar> = \<bar>of_int m * ulp - a\<bar>"
    using False by (simp add: abs_mult abs_sgn_eq)
  also have "\<dots> = \<bar>of_int m - a / ulp\<bar> * ulp"
  proof -
    have "of_int m * ulp - a = (of_int m - a / ulp) * ulp"
      using ulp by (simp add: field_simps)
    then show ?thesis
      using ulp by (simp add: abs_mult)
  qed
  also have "\<dots> \<le> 1 / 2 * ulp"
    using round_half_even_near [of "a / ulp"] ulp
    by (intro mult_right_mono) (simp_all add: m_def)
  also have "\<dots> \<le> a / 2 ^ 53"
  proof -
    have "ulp * 2 ^ 52 = 2 powi binary_exponent a"
      by (simp add: ulp_def power_int_diff)
    also have "\<dots> \<le> a"
      using a by (rule binary_exponent_bounds)
    finally show ?thesis
      by (simp add: field_simps)
  qed
  finally show ?thesis
    by (simp add: a_def)
qed

text \<open>The significand that \<open>to_double\<close> rounds has \<open>53\<close> bits.\<close>

lemma to_double_significand:
  assumes "0 < x"
  shows "2 ^ 52 \<le> x / 2 powi (binary_exponent x - 52)"
    and "x / 2 powi (binary_exponent x - 52) < 2 ^ 53"
proof -
  have ulp: "(2::rat) powi (binary_exponent x - 52) = 2 powi binary_exponent x / 2 ^ 52"
    by (simp add: power_int_diff)
  have pos: "(0::rat) < 2 powi binary_exponent x"
    by simp
  have "(2::rat) powi (binary_exponent x + 1) = 2 powi binary_exponent x * 2"
    by (simp add: power_int_add)
  with binary_exponent_bounds [OF assms]
  have lo: "2 powi binary_exponent x \<le> x" and hi: "x < 2 powi binary_exponent x * 2"
    by simp_all
  show "2 ^ 52 \<le> x / 2 powi (binary_exponent x - 52)"
    using lo pos by (simp add: ulp field_simps)
  show "x / 2 powi (binary_exponent x - 52) < 2 ^ 53"
    using hi pos by (simp add: ulp field_simps)
qed

lemma round_hundredths_near:
  "\<bar>of_int (math_round (double_times d 100)) / 100 - d\<bar> \<le> 1 / 200 + \<bar>d\<bar> / 2 ^ 53"
proof -
  define y where "y = double_times d 100"
  have "\<bar>y - d * 100\<bar> \<le> \<bar>d * 100\<bar> / 2 ^ 53"
    unfolding y_def double_times_def by (rule to_double_near)
  moreover have "\<bar>of_int (math_round y) - y\<bar> \<le> 1 / 2"
    by (rule math_round_near)
  ultimately have "\<bar>of_int (math_round y) - d * 100\<bar> \<le> 1 / 2 + \<bar>d * 100\<bar> / 2 ^ 53"
    by linarith
  then have "\<bar>of_int (math_round y) - d * 100\<bar> / 100 \<le> (1 / 2 + \<bar>d * 100\<bar> / 2 ^ 53) / 100"
    by (simp add: divide_right_mono)
  moreover have "\<bar>of_int (math_round y) - d * 100\<bar> / 100 = \<bar>of_int (math_round y) / 100 - d\<bar>"
  proof -
    have "of_int (math_round y) / 100 - d = (of_int (math_round y) - d * 100) / 100"
      by (simp add: field_simps)
    then show ?thesis
      by (simp only: abs_divide)
  qed
  moreover have "(1 / 2 + \<bar>d * 100\<bar> / 2 ^ 53) / 100 = 1 / 200 + \<bar>d\<bar> / 2 ^ 53"
    by (simp add: abs_mult field_simps)
  ultimately show ?thesis
    by (simp add: y_def)
qed

lemma instrument_label_cases:
  "instrument_label t =
     (case instrument t of
        None \<Rightarrow> ''Piano''
      | Some i \<Rightarrow> (case instrument_name i of
                     None \<Rightarrow> ''Piano''
                   | Some l \<Rightarrow> if l = [] then ''Piano'' else l))"
  by (simp add: instrument_label_def or_default_def split: option.splits)

lemma of_char_digit_char: "d < 10 \<Longrightarrow> (of_char (digit_char d) :: nat) = 48 + d"
  by (simp add: digit_char_def)

lemma digit_val_digit_char: "d < 10 \<Longrightarrow> digit_val (digit_char d) = d"
  by (simp add: digit_val_def of_char_digit_char)

lemma digit_char_not_mark:
  assumes "d < 10"
  shows "digit_char d \<noteq> CHR ''.''" and "digit_char d \<noteq> CHR ''-''"
proof -
  have "(of_char (digit_char d) :: nat) \<noteq> of_char (CHR ''.'')"
    using assms by (simp add: of_char_digit_char)
  then show "digit_char d \<noteq> CHR ''.''" by auto
  have "(of_char (digit_char d) :: nat) \<noteq> of_char (CHR ''-'')"
    using assms by (simp add: of_char_digit_char)
  then show "digit_char d \<noteq> CHR ''-''" by auto
qed

lemma parseInt_snoc: "parseInt (ds @ [c]) = 10 * parseInt ds + digit_val c"
  by (simp add: parseInt_def)

lemma parseInt_short:
  "parseInt [] = 0" "parseInt [c] = digit_val c" "parseInt [c, c'] = 10 * digit_val c + digit_val c'"
  by (simp_all add: parseInt_def)

lemma show_nat_props:
  "parseInt (show_nat n) = n \<and> show_nat n \<noteq> [] \<and>
   (\<forall>c\<in>set (show_nat n). c \<noteq> CHR ''.'' \<and> c \<noteq> CHR ''-'')"
proof (induction n rule: show_nat.induct)
  case (1 n)
  show ?case
  proof (cases "n < 10")
    case True
    then show ?thesis
      by (simp add: show_nat.simps [of n] parseInt_short digit_val_digit_char digit_char_not_mark)
  next
    case False
    have "n mod 10 < 10" by simp
    with False 1 show ?thesis
      by (simp add: show_nat.simps [of n] parseInt_snoc digit_val_digit_char digit_char_not_mark)
  qed
qed

lemma takeWhile_whole:
  "takeWhile (\<lambda>c. c \<noteq> CHR ''.'') (show_nat n) = show_nat n \<and>
   dropWhile (\<lambda>c. c \<noteq> CHR ''.'') (show_nat n) = [] \<and>
   takeWhile (\<lambda>c. c \<noteq> CHR ''.'') (show_nat n @ CHR ''.'' # ds) = show_nat n \<and>
   dropWhile (\<lambda>c. c \<noteq> CHR ''.'') (show_nat n @ CHR ''.'' # ds) = CHR ''.'' # ds"
  using show_nat_props [of n] by (simp add: takeWhile_append2 dropWhile_append2)

lemma take_1_show_nat: "take 1 (show_nat n @ rest) \<noteq> ''-''"
proof -
  obtain c cs where "show_nat n = c # cs" and "c \<noteq> CHR ''-''"
    using show_nat_props [of n] by (cases "show_nat n") auto
  then show ?thesis by simp
qed

lemma decimal_value_unsigned:
  fixes a :: nat
  defines "body \<equiv> show_nat (a div 100) @
         (if a mod 100 = 0 then ''''
          else ''.'' @ [digit_char (a mod 100 div 10)] @
               (if a mod 100 mod 10 = 0 then '''' else [digit_char (a mod 100 mod 10)]))"
  shows "of_nat (parseInt (takeWhile (\<lambda>c. c \<noteq> CHR ''.'') body)) +
         of_nat (parseInt (drop 1 (dropWhile (\<lambda>c. c \<noteq> CHR ''.'') body))) /
           10 ^ length (drop 1 (dropWhile (\<lambda>c. c \<noteq> CHR ''.'') body)) = (of_nat a / 100 :: rat)"
proof -
  have d1: "a mod 100 div 10 < 10" by simp
  have d2: "a mod 100 mod 10 < 10" by simp
  have split: "(of_nat a :: rat) = 100 * of_nat (a div 100) + of_nat (a mod 100)"
    by (metis mult_div_mod_eq of_nat_add of_nat_mult of_nat_numeral)
  have split2: "(of_nat (a mod 100) :: rat) = 10 * of_nat (a mod 100 div 10) + of_nat (a mod 100 mod 10)"
    by (metis mult_div_mod_eq of_nat_add of_nat_mult of_nat_numeral)
  show ?thesis
  proof (cases "a mod 100 = 0")
    case True
    then show ?thesis
      using split by (simp add: body_def takeWhile_whole show_nat_props parseInt_short)
  next
    case False
    show ?thesis
    proof (cases "a mod 100 mod 10 = 0")
      case True
      with False show ?thesis
        using split split2
        by (simp add: body_def takeWhile_whole show_nat_props parseInt_short
            digit_val_digit_char [OF d1] field_simps)
    next
      case nz: False
      with False show ?thesis
        using split split2
        by (simp add: body_def takeWhile_whole show_nat_props parseInt_short
            digit_val_digit_char [OF d1] digit_val_digit_char [OF d2] field_simps)
    qed
  qed
qed

lemma decimal_value_number_to_string:
  "decimal_value (number_to_string (of_int k / 100)) = of_int k / 100"
proof -
  have fl: "\<lfloor>(of_int k / 100 :: rat) * 100\<rfloor> = k"
    by simp
  define a where "a = nat \<bar>k\<bar>"
  define body where "body = show_nat (a div 100) @
         (if a mod 100 = 0 then ''''
          else ''.'' @ [digit_char (a mod 100 div 10)] @
               (if a mod 100 mod 10 = 0 then '''' else [digit_char (a mod 100 mod 10)]))"
  have nts: "number_to_string (of_int k / 100) = (if k < 0 then ''-'' else '''') @ body"
    unfolding number_to_string_def fl Let_def a_def body_def by simp
  have val: "of_nat (parseInt (takeWhile (\<lambda>c. c \<noteq> CHR ''.'') body)) +
         of_nat (parseInt (drop 1 (dropWhile (\<lambda>c. c \<noteq> CHR ''.'') body))) /
           10 ^ length (drop 1 (dropWhile (\<lambda>c. c \<noteq> CHR ''.'') body)) = (of_nat a / 100 :: rat)"
    unfolding body_def by (rule decimal_value_unsigned)
  have pos: "take 1 body \<noteq> ''-''"
    unfolding body_def by (rule take_1_show_nat)
  show ?thesis
  proof (cases "k < 0")
    case True
    then have "(of_nat a :: rat) = - of_int k"
      by (simp add: a_def)
    with True val show ?thesis
      by (simp add: nts decimal_value_def Let_def)
  next
    case False
    then have "(of_nat a :: rat) = of_int k"
      by (simp add: a_def)
    with False val pos show ?thesis
      by (simp add: nts decimal_value_def Let_def)
  qed
qed

lemma js_join_concat: "js_join sep (x # xs) = x @ concat (map ((@) sep) xs)"
  by (induction xs arbitrary: x) simp_all

lemma abcNote_of_own:
  "noteName \<notin> set Object_prototype_names \<Longrightarrow> abcNote_of noteName = Str (abc_pitch_class noteName)"
  by (simp add: abcNote_of_def noteMap_get_def abc_pitch_class_def split: option.splits)

text \<open>
  On every note whose pitch class is not an inherited name, the two embeddings of
  \<^verbatim>\<open>convertNoteToABC\<close> agree.
\<close>

lemma convertNoteToABC_try_pitch_name:
  "remove_digits (name n) \<notin> set Object_prototype_names \<Longrightarrow>
   convertNoteToABC_try n = Inr (Text (convertNoteToABC n))"
  by (simp add: convertNoteToABC_try_def convertNoteToABC_def abcNote_of_own)

lemma takeWhile_not_digit_append:
  "list_all not_digit pc \<Longrightarrow> ds \<noteq> [] \<Longrightarrow> list_all is_digit ds \<Longrightarrow>
   takeWhile not_digit (pc @ ds) = pc \<and> dropWhile not_digit (pc @ ds) = ds"
  by (induction pc) (auto simp: not_digit_def neq_Nil_conv)

lemma remove_digits_pitch:
  assumes "list_all not_digit pc" "ds \<noteq> []" "list_all is_digit ds"
  shows "remove_digits (pc @ ds) = pc"
  using takeWhile_not_digit_append [OF assms] assms(3)
  by (simp add: remove_digits_def list_all_iff)

lemma match_digits_pitch:
  assumes "list_all not_digit pc" "ds \<noteq> []" "list_all is_digit ds"
  shows "match_digits (pc @ ds) = Some ds"
proof -
  have "\<forall>c\<in>set ds. is_digit c"
    using assms(3) by (simp add: list_all_iff)
  then have "takeWhile is_digit ds = ds"
    by simp
  with assms(2) show ?thesis
    unfolding match_digits_def Let_def
    by (simp only: takeWhile_not_digit_append [OF assms] if_False)
qed

lemma abc_octave_marks:
  "abc_octave n s =
     (if n \<ge> 5 then toLowerCase s @ replicate (n - 5) apostrophe
      else if n < 4 then s @ replicate (4 - n) (CHR '','')
      else s)"
  by (simp add: abc_octave_def append_loop_replicate)

text \<open>
  The octave rule for a pitch name \<open>pc @ ds\<close> whose digits \<open>ds\<close> read as a number other than \<open>0\<close>.
\<close>

lemma convertNoteToABC_octave:
  assumes "list_all not_digit pc" "ds \<noteq> []" "list_all is_digit ds" "parseInt ds = k" "k \<noteq> 0"
  shows "convertNoteToABC \<lparr>name = pc @ ds, midi = m, time = t, duration = d, velocity = v\<rparr> =
     (if k \<ge> 5 then toLowerCase (abc_pitch_class pc) @ replicate (k - 5) apostrophe
      else if k < 4 then abc_pitch_class pc @ replicate (4 - k) (CHR '','')
      else abc_pitch_class pc) @ abc_duration d"
  using assms(4,5)
  by (simp add: convertNoteToABC_def remove_digits_pitch [OF assms(1-3)] octave_of_def
      match_digits_pitch [OF assms(1-3)] abc_octave_marks)

lemma sortedNotes_store_Inr:
  assumes "sortedNotes_store h tr = Inr (h2, a)"
  shows "notes_ref tr < length h \<and> a = length h \<and>
         h2 = h @ [js_sort by_time (h ! notes_ref tr)]"
  using assms
  by (auto simp: sortedNotes_store_def spread_def sort_in_place_def split: if_splits)

lemma sortedNotes_store_Inl:
  "(sortedNotes_store h tr = Inl e) = (\<not> notes_ref tr < length h)"
  by (cases e) (simp add: sortedNotes_store_def spread_def)

lemma sortedNotes_store_allocated:
  "notes_ref tr < length h \<Longrightarrow>
   sortedNotes_store h tr = Inr (h @ [js_sort by_time (h ! notes_ref tr)], length h)"
  by (simp add: sortedNotes_store_def spread_def sort_in_place_def)

lemma convertMidiToABC_store_try_frame:
  "take (length h) (fst (convertMidiToABC_store_try h m)) = h"
  by (auto simp: convertMidiToABC_store_try_def Let_def
      split: option.splits list.splits sum.splits dest!: sortedNotes_store_Inr)

lemma convertMidiToVexFlow_store_try_frame:
  "take (length h) (fst (convertMidiToVexFlow_store_try h m)) = h"
  by (auto simp: convertMidiToVexFlow_store_try_def
      split: option.splits list.splits sum.splits dest!: sortedNotes_store_Inr)

lemma convertMidiToABC_store_frame:
  "take (length h) (fst (convertMidiToABC_store h m)) = h"
proof -
  obtain h' r where run: "convertMidiToABC_store_try h m = (h', r)"
    by (cases "convertMidiToABC_store_try h m")
  with convertMidiToABC_store_try_frame [of h m] have "take (length h) h' = h"
    by simp
  with run show ?thesis
    by (cases r) (simp_all add: convertMidiToABC_store_def)
qed

lemma convertMidiToVexFlow_store_frame:
  "take (length h) (fst (convertMidiToVexFlow_store h m)) = h"
proof -
  obtain h' r where run: "convertMidiToVexFlow_store_try h m = (h', r)"
    by (cases "convertMidiToVexFlow_store_try h m")
  with convertMidiToVexFlow_store_try_frame [of h m] have "take (length h) h' = h"
    by simp
  with run show ?thesis
    by (cases r) (simp_all add: convertMidiToVexFlow_store_def)
qed

lemma load_frame:
  assumes "allocated h md" and "take (length h) h' = h"
  shows "load h' md = load h md"
proof -
  have nth: "h' ! a = h ! a" if "a < length h" for a
    using that assms(2) by (metis nth_take)
  have "map (load_track h') ts = map (load_track h) ts"
    if "list_all (\<lambda>t. notes_ref t < length h) ts" for ts
    using that by (induction ts) (simp_all add: load_track_def nth)
  then show ?thesis
    using assms(1) by (cases "ref_tracks md") (simp_all add: load_def allocated_def)
qed

lemma convertMidiToABC_store_value:
  assumes "allocated h md"
  shows "snd (convertMidiToABC_store h (Some md)) = convertMidiToABC (Some (load h md))"
proof (cases "ref_tracks md")
  case None
  then show ?thesis
    by (simp add: convertMidiToABC_store_def convertMidiToABC_store_try_def
        convertMidiToABC_def convertMidiToABC_try_def load_def)
next
  case (Some ts)
  show ?thesis
  proof (cases ts)
    case Nil
    with Some show ?thesis
      by (simp add: convertMidiToABC_store_def convertMidiToABC_store_try_def
          convertMidiToABC_def convertMidiToABC_try_def load_def)
  next
    case (Cons t rest)
    with Some assms have "notes_ref t < length h"
      by (simp add: allocated_def)
    with Some Cons show ?thesis
      by (simp add: convertMidiToABC_store_def convertMidiToABC_store_try_def
          convertMidiToABC_def convertMidiToABC_try_def load_def load_track_def
          sortedNotes_store_allocated sortedNotes_def Let_def)
  qed
qed

lemma convertMidiToVexFlow_store_value:
  assumes "allocated h md"
  shows "snd (convertMidiToVexFlow_store h (Some md)) = convertMidiToVexFlow (Some (load h md))"
proof (cases "ref_tracks md")
  case None
  then show ?thesis
    by (simp add: convertMidiToVexFlow_store_def convertMidiToVexFlow_store_try_def
        convertMidiToVexFlow_def convertMidiToVexFlow_try_def load_def)
next
  case (Some ts)
  show ?thesis
  proof (cases ts)
    case Nil
    with Some show ?thesis
      by (simp add: convertMidiToVexFlow_store_def convertMidiToVexFlow_store_try_def
          convertMidiToVexFlow_def convertMidiToVexFlow_try_def load_def)
  next
    case (Cons t rest)
    with Some assms have "notes_ref t < length h"
      by (simp add: allocated_def)
    with Some Cons show ?thesis
      by (simp add: convertMidiToVexFlow_store_def convertMidiToVexFlow_store_try_def
          convertMidiToVexFlow_def convertMidiToVexFlow_try_def load_def load_track_def
          sortedNotes_store_allocated sortedNotes_def)
  qed
qed

subsection \<open>Duration buckets\<close>

text \<open>
  C1. The claim: a note whose duration is exactly \<open>2.0\<close> gets the half-note suffix \<open>2\<close> from
  the ABC encoder and the half-note code \<open>h\<close> from the VexFlow encoder. The ABC encoder
  tests \<open>duration < 2\<close>, so at \<open>2.0\<close> it falls to the last branch: the note \<open>C4\<close> of duration
  \<open>2\<close> encodes to \<open>C4\<close>, not to \<open>C2\<close>.
\<close>

theorem duration_two_counterexample:
  "duration \<lparr>name = ''C4'', midi = 60, time = 0, duration = 2, velocity = 1\<rparr> = 2 \<and>
   convertNoteToABC \<lparr>name = ''C4'', midi = 60, time = 0, duration = 2, velocity = 1\<rparr> = ''C4'' \<and>
   convertNoteToABC \<lparr>name = ''C4'', midi = 60, time = 0, duration = 2, velocity = 1\<rparr> \<noteq> ''C2''"
  by code_simp

text \<open>
  C1, as the ABC encoder has it: for every note whose duration is exactly \<open>2.0\<close>,
  \<^verbatim>\<open>convertNoteToABC\<close> appends the whole-note suffix \<open>4\<close> to the pitch and octave part.
\<close>

theorem abc_duration_two_is_whole:
  "duration n = 2 \<Longrightarrow>
   convertNoteToABC n =
     abc_octave (octave_of (name n)) (abc_pitch_class (remove_digits (name n))) @ ''4''"
  by (simp add: convertNoteToABC_def abc_duration_def)

theorem abc_duration_two_is_whole_witness:
  "duration \<lparr>name = ''C4'', midi = 60, time = 0, duration = 2, velocity = 1\<rparr> = 2 \<and>
   convertNoteToABC \<lparr>name = ''C4'', midi = 60, time = 0, duration = 2, velocity = 1\<rparr> = ''C'' @ ''4''"
  using abc_duration_two_is_whole [of "\<lparr>name = ''C4'', midi = 60, time = 0, duration = 2, velocity = 1\<rparr>"]
  by code_simp

lemma vex_duration_two:
  "vex_duration_code (to_vexFlowNote \<lparr>name = ''E4'', midi = 64, time = 0, duration = 2, velocity = 1\<rparr>) = ''w''"
  by code_simp

text \<open>
  C9. For every note whose duration is zero or negative, the threshold comparisons put it
  in the first bucket: \<^verbatim>\<open>convertNoteToABC\<close> appends \<open>/4\<close> and the VexFlow descriptor has
  the code \<open>16\<close>. Neither encoder fails on a model whose first track holds such a note:
  both \<open>try\<close> bodies return normally, and the descriptor of the note is in the output.
\<close>

theorem nonpositive_duration_bucket:
  assumes "duration n \<le> 0"
  shows "convertNoteToABC n =
           abc_octave (octave_of (name n)) (abc_pitch_class (remove_digits (name n))) @ ''/4'' \<and>
         to_vexFlowNote n =
           \<lparr>keys = [slash_digits (name n)], vex_duration_code = ''16'', vex_midi = midi n,
            vex_time = time n\<rparr> \<and>
         (\<forall>md tr rest. tracks md = Some (tr # rest) \<and> n \<in> set (track_notes tr) \<longrightarrow>
            convertMidiToABC_try (Some md) = Inr (convertMidiToABC (Some md)) \<and>
            convertMidiToVexFlow_try (Some md) = Inr (convertMidiToVexFlow (Some md)) \<and>
            to_vexFlowNote n \<in> set (convertMidiToVexFlow (Some md)))"
proof -
  from assms have small: "duration n < 0.25" by simp
  have abc: "convertNoteToABC n =
      abc_octave (octave_of (name n)) (abc_pitch_class (remove_digits (name n))) @ ''/4''"
    using small by (simp add: convertNoteToABC_def abc_duration_def)
  have vex: "to_vexFlowNote n =
      \<lparr>keys = [slash_digits (name n)], vex_duration_code = ''16'', vex_midi = midi n,
       vex_time = time n\<rparr>"
    using small by (simp add: to_vexFlowNote_def vex_duration_def)
  have mem: "to_vexFlowNote n \<in> set (convertMidiToVexFlow (Some md))"
    if "tracks md = Some (tr # rest)" and "n \<in> set (track_notes tr)" for md tr rest
  proof -
    have "convertMidiToVexFlow (Some md) = map to_vexFlowNote (sortedNotes tr)"
      using that(1) by (simp add: convertMidiToVexFlow_def convertMidiToVexFlow_first)
    then show ?thesis
      using that(2) by (simp add: set_sortedNotes)
  qed
  show ?thesis
    using abc vex mem convertMidiToABC_try_Some convertMidiToVexFlow_try_Some by blast
qed

theorem nonpositive_duration_bucket_witness:
  "duration \<lparr>name = ''D4'', midi = 62, time = 0, duration = - 1, velocity = 1\<rparr> \<le> 0 \<and>
   convertNoteToABC \<lparr>name = ''D4'', midi = 62, time = 0, duration = - 1, velocity = 1\<rparr> = ''D/4'' \<and>
   to_vexFlowNote \<lparr>name = ''D4'', midi = 62, time = 0, duration = - 1, velocity = 1\<rparr> =
     \<lparr>keys = [''D/4''], vex_duration_code = ''16'', vex_midi = 62, vex_time = 0\<rparr> \<and>
   \<lparr>keys = [''D/4''], vex_duration_code = ''16'', vex_midi = 62, vex_time = 0\<rparr> \<in>
     set (convertMidiToVexFlow (Some \<lparr>midi_name = None, midi_duration = 1, tracks = Some
       [\<lparr>track_name = None, instrument = None, track_notes =
          [\<lparr>name = ''D4'', midi = 62, time = 0, duration = - 1, velocity = 1\<rparr>]\<rparr>]\<rparr>))"
  (is "duration ?n \<le> 0 \<and> convertNoteToABC ?n = ?a \<and> to_vexFlowNote ?n = ?v \<and>
       ?v \<in> set (convertMidiToVexFlow (Some ?M))")
proof -
  let ?T = "\<lparr>track_name = None, instrument = None, track_notes = [?n]\<rparr>"
  have d: "duration ?n \<le> 0"
    by simp
  note th = nonpositive_duration_bucket [OF d]
  have "convertNoteToABC ?n =
      abc_octave (octave_of (name ?n)) (abc_pitch_class (remove_digits (name ?n))) @ ''/4''"
    using th by blast
  also have "\<dots> = ?a"
    by code_simp
  finally have a: "convertNoteToABC ?n = ?a" .
  have "to_vexFlowNote ?n =
      \<lparr>keys = [slash_digits (name ?n)], vex_duration_code = ''16'', vex_midi = midi ?n,
       vex_time = time ?n\<rparr>"
    using th by blast
  also have "\<dots> = ?v"
    by code_simp
  finally have v: "to_vexFlowNote ?n = ?v" .
  have "tracks ?M = Some (?T # []) \<and> ?n \<in> set (track_notes ?T)"
    by simp
  with th have "to_vexFlowNote ?n \<in> set (convertMidiToVexFlow (Some ?M))"
    by blast
  with v have m: "?v \<in> set (convertMidiToVexFlow (Some ?M))"
    by simp
  from d a v m show ?thesis
    by blast
qed

subsection \<open>Pitch class and octave\<close>




text \<open>
  Below octave \<open>5\<close> an inherited name does not throw: the result is the text of the
  inherited function with the commas and the suffix appended.
\<close>

lemma inherited_name_text:
  "convertNoteToABC_try \<lparr>name = ''constructor3'', midi = 48, time = 0, duration = 1, velocity = 1\<rparr> =
     Inr (ObjText ''constructor'' '',2'')"
  by code_simp

text \<open>
  C4. The claim: an octave digit \<open>n < 4\<close> gives \<open>4 - n\<close> commas. At \<open>n = 0\<close> the code reads
  \<^verbatim>\<open>parseInt('0') || 4\<close>, which is \<open>4\<close>: the note \<open>C0\<close> encodes to \<open>C\<close> with no comma, where
  \<open>C1\<close> gets its three commas and the VexFlow key of \<open>C0\<close> keeps the octave \<open>0\<close>.
\<close>

theorem octave_zero_has_no_commas:
  "convertNoteToABC \<lparr>name = ''C0'', midi = 12, time = 0, duration = 1/2, velocity = 1\<rparr> = ''C'' \<and>
   convertNoteToABC \<lparr>name = ''C0'', midi = 12, time = 0, duration = 1/2, velocity = 1\<rparr> \<noteq> ''C,,,,'' \<and>
   convertNoteToABC \<lparr>name = ''C1'', midi = 24, time = 0, duration = 1/2, velocity = 1\<rparr> = ''C,,,'' \<and>
   keys (to_vexFlowNote \<lparr>name = ''C0'', midi = 12, time = 0, duration = 1/2, velocity = 1\<rparr>) = [''C/0'']"
  by code_simp

text \<open>The octave examples of the claim, at the octaves \<open>3\<close> to \<open>6\<close>.\<close>

lemma octave_examples:
  "convertNoteToABC \<lparr>name = ''C3'', midi = 48, time = 0, duration = 1/2, velocity = 1\<rparr> = ''C,'' \<and>
   convertNoteToABC \<lparr>name = ''C4'', midi = 60, time = 0, duration = 1/2, velocity = 1\<rparr> = ''C'' \<and>
   convertNoteToABC \<lparr>name = ''C5'', midi = 72, time = 0, duration = 1/2, velocity = 1\<rparr> = ''c'' \<and>
   convertNoteToABC \<lparr>name = ''C6'', midi = 84, time = 0, duration = 1/2, velocity = 1\<rparr> = ''c'' @ [apostrophe]"
  by code_simp

subsection \<open>Absent and empty models\<close>

text \<open>
  C2. On \<^verbatim>\<open>null\<close> none of the three functions throws: \<^verbatim>\<open>convertMidiToABC\<close> returns
  the fixed fallback document, which contains \<open>T:Error\<close> and \<open>z4\<close>;
  \<^verbatim>\<open>convertMidiToVexFlow\<close> returns the empty array; \<^verbatim>\<open>getMidiSummary\<close> returns the
  all-default summary.
\<close>

theorem null_model_fallbacks:
  "convertMidiToABC None =
     ''X:1'' @ [NL] @ ''T:Error'' @ [NL] @ ''M:4/4'' @ [NL] @ ''L:1/4'' @ [NL] @ ''K:C'' @ [NL] @ ''z4'' \<and>
   sublist ''T:Error'' (convertMidiToABC None) \<and>
   sublist ''z4'' (convertMidiToABC None) \<and>
   convertMidiToVexFlow None = [] \<and>
   getMidiSummary None =
     \<lparr>summary_name = ''Unknown'', summary_duration = ''0 seconds'', summary_tracks = 0,
      totalNotes = 0, instruments = ''Unknown''\<rparr>"
proof -
  have abc: "convertMidiToABC None = abc_fallback"
    by (simp add: convertMidiToABC_def convertMidiToABC_try_def)
  have t: "sublist ''T:Error'' abc_fallback"
    unfolding sublist_def abc_fallback_def
    by (rule exI [of _ "''X:1'' @ [NL]"], rule exI [of _ "[NL] @ ''M:4/4'' @ [NL] @ ''L:1/4'' @ [NL] @ ''K:C'' @ [NL] @ ''z4''"]) simp
  have z: "sublist ''z4'' abc_fallback"
    unfolding sublist_def abc_fallback_def
    by (rule exI [of _ "''X:1'' @ [NL] @ ''T:Error'' @ [NL] @ ''M:4/4'' @ [NL] @ ''L:1/4'' @ [NL] @ ''K:C'' @ [NL]"], rule exI [of _ "[]"]) simp
  have vex: "convertMidiToVexFlow None = []"
    by (simp add: convertMidiToVexFlow_def convertMidiToVexFlow_try_def)
  have sm: "getMidiSummary None = summary_fallback"
    by (simp add: getMidiSummary_def getMidiSummary_try_def)
  show ?thesis
    using t z by (simp add: abc vex sm) (simp add: abc_fallback_def summary_fallback_def)
qed

text \<open>
  C6. For every model whose tracks array is empty, \<^verbatim>\<open>convertMidiToABC\<close> returns exactly
  the five header lines, with the model's name as the title (\<open>Transcribed Audio\<close> when the
  name is absent or empty), \<^verbatim>\<open>convertMidiToVexFlow\<close> returns the empty array, and
  \<^verbatim>\<open>getMidiSummary\<close> reports \<open>0\<close> tracks and \<open>0\<close> notes; the three \<open>try\<close> bodies return
  normally.
\<close>

theorem empty_tracks_outputs:
  assumes "tracks md = Some []"
  shows "convertMidiToABC_try (Some md) =
           Inr (''X:1'' @ [NL] @ ''T:'' @ or_default (midi_name md) ''Transcribed Audio'' @ [NL] @
                ''M:4/4'' @ [NL] @ ''L:1/4'' @ [NL] @ ''K:C'' @ [NL]) \<and>
         convertMidiToABC (Some md) =
           ''X:1'' @ [NL] @ ''T:'' @ or_default (midi_name md) ''Transcribed Audio'' @ [NL] @
           ''M:4/4'' @ [NL] @ ''L:1/4'' @ [NL] @ ''K:C'' @ [NL] \<and>
         convertMidiToVexFlow_try (Some md) = Inr [] \<and>
         convertMidiToVexFlow (Some md) = [] \<and>
         getMidiSummary_try (Some md) = Inr (getMidiSummary (Some md)) \<and>
         summary_tracks (getMidiSummary (Some md)) = 0 \<and>
         totalNotes (getMidiSummary (Some md)) = 0"
  using assms
  by (simp add: convertMidiToABC_def convertMidiToABC_try_def abc_header_def
      convertMidiToVexFlow_def convertMidiToVexFlow_try_def getMidiSummary_def getMidiSummary_try_def)

theorem empty_tracks_outputs_witness:
  "tracks \<lparr>midi_name = Some ''Empty Song'', midi_duration = 0, tracks = Some []\<rparr> = Some [] \<and>
   convertMidiToABC (Some \<lparr>midi_name = Some ''Empty Song'', midi_duration = 0, tracks = Some []\<rparr>) =
     ''X:1'' @ [NL] @ ''T:Empty Song'' @ [NL] @ ''M:4/4'' @ [NL] @ ''L:1/4'' @ [NL] @ ''K:C'' @ [NL] \<and>
   convertMidiToVexFlow (Some \<lparr>midi_name = Some ''Empty Song'', midi_duration = 0, tracks = Some []\<rparr>) = [] \<and>
   summary_tracks (getMidiSummary (Some \<lparr>midi_name = Some ''Empty Song'', midi_duration = 0, tracks = Some []\<rparr>)) = 0 \<and>
   totalNotes (getMidiSummary (Some \<lparr>midi_name = Some ''Empty Song'', midi_duration = 0, tracks = Some []\<rparr>)) = 0"
  using empty_tracks_outputs [of "\<lparr>midi_name = Some ''Empty Song'', midi_duration = 0, tracks = Some []\<rparr>"]
  by (simp add: or_default_def)

subsection \<open>The summary\<close>

text \<open>
  C7. The claim: for every non-null model, \<^verbatim>\<open>getMidiSummary\<close> returns the number of
  tracks, the sum of the note counts, the joined instrument labels and the duration rounded
  to two decimals. A non-null model without a tracks array gets the all-default summary
  (\<open>0 seconds\<close> whatever its duration, \<open>Unknown\<close> for the instruments), since the \<open>reduce\<close>
  throws. And the rounding works on the double product: for the double nearest to \<open>0.015\<close>,
  which is below \<open>0.015\<close>, the product with \<open>100\<close> is exactly \<open>1.5\<close>, and the summary says
  \<open>0.02 seconds\<close>, which is further than half a hundredth from the duration, where \<open>0.01\<close>
  is nearer.
\<close>

theorem summary_without_tracks_counterexample:
  "getMidiSummary (Some \<lparr>midi_name = Some ''Song'', midi_duration = 2, tracks = None\<rparr>) =
     \<lparr>summary_name = ''Unknown'', summary_duration = ''0 seconds'', summary_tracks = 0,
      totalNotes = 0, instruments = ''Unknown''\<rparr> \<and>
   summary_duration (getMidiSummary (Some
     \<lparr>midi_name = None, midi_duration = 1080863910568919 / 72057594037927936,
      tracks = Some []\<rparr>)) = ''0.02 seconds'' \<and>
   \<bar>(1::rat) / 100 - 1080863910568919 / 72057594037927936\<bar> < 1 / 200 \<and>
   1 / 200 < \<bar>(2::rat) / 100 - 1080863910568919 / 72057594037927936\<bar>"
  by code_simp

text \<open>
  C7, as the code has it: for every non-null model that has a tracks array,
  \<^verbatim>\<open>getMidiSummary\<close> returns the number of tracks, the sum of the note counts of all
  tracks, the instrument labels joined by a comma and a space, with \<open>Piano\<close> for a track
  without a label, and as the duration the decimal text of
  \<^verbatim>\<open>Math.round(duration * 100) / 100\<close> followed by \<open>seconds\<close>, where the product is the
  double product: the text reads back as a whole number of hundredths that is within
  \<open>1/200 + |duration| / 2^53\<close> of the duration.
\<close>

theorem getMidiSummary_fields:
  assumes "tracks md = Some ts"
  shows "\<bar>of_int (math_round (double_times (midi_duration md) 100)) / 100 - midi_duration md\<bar>
           \<le> 1 / 200 + \<bar>midi_duration md\<bar> / 2 ^ 53 \<and>
         decimal_value (number_to_string
             (of_int (math_round (double_times (midi_duration md) 100)) / 100)) =
           of_int (math_round (double_times (midi_duration md) 100)) / 100 \<and>
         getMidiSummary (Some md) =
           \<lparr>summary_name =
              (case midi_name md of
                 None \<Rightarrow> ''Transcribed Audio''
               | Some v \<Rightarrow> if v = [] then ''Transcribed Audio'' else v),
            summary_duration =
              number_to_string (of_int (math_round (double_times (midi_duration md) 100)) / 100) @
              '' seconds'',
            summary_tracks = length ts,
            totalNotes = sum_list (map (\<lambda>t. length (track_notes t)) ts),
            instruments =
              (case map (\<lambda>t. case instrument t of
                                None \<Rightarrow> ''Piano''
                              | Some i \<Rightarrow> (case instrument_name i of
                                             None \<Rightarrow> ''Piano''
                                           | Some l \<Rightarrow> if l = [] then ''Piano'' else l)) ts of
                 [] \<Rightarrow> ''''
               | l # ls \<Rightarrow> l @ concat (map ((@) '', '') ls))\<rparr>"
proof -
  have joined: "js_join sep ls = (case ls of [] \<Rightarrow> '''' | l # ls' \<Rightarrow> l @ concat (map ((@) sep) ls'))"
    for sep ls
    by (cases ls) (simp_all add: js_join_concat)
  have summary: "getMidiSummary (Some md) =
      \<lparr>summary_name = or_default (midi_name md) ''Transcribed Audio'',
       summary_duration =
         number_to_string (of_int (math_round (double_times (midi_duration md) 100)) / 100) @
         '' seconds'',
       summary_tracks = length ts,
       totalNotes = sum_list (map (\<lambda>t. length (track_notes t)) ts),
       instruments = js_join '', '' (map instrument_label ts)\<rparr>"
    using assms by (simp add: getMidiSummary_def getMidiSummary_try_def foldl_note_count)
  show ?thesis
    using round_hundredths_near [of "midi_duration md"]
      decimal_value_number_to_string [of "math_round (double_times (midi_duration md) 100)"]
    by (simp add: summary joined [of "'', ''"] instrument_label_cases [abs_def] or_default_def)
qed

theorem getMidiSummary_fields_witness:
  "getMidiSummary (Some \<lparr>midi_name = Some ''Test Song'',
      midi_duration = 642748109318783 / 140737488355328, tracks = Some
      [\<lparr>track_name = None, instrument = Some \<lparr>instrument_name = Some ''Piano''\<rparr>, track_notes =
          [\<lparr>name = ''C4'', midi = 60, time = 0, duration = 1, velocity = 1\<rparr>,
           \<lparr>name = ''D4'', midi = 62, time = 1, duration = 1, velocity = 1\<rparr>]\<rparr>,
       \<lparr>track_name = None, instrument = Some \<lparr>instrument_name = Some ''Guitar''\<rparr>, track_notes =
          [\<lparr>name = ''E4'', midi = 64, time = 0, duration = 1, velocity = 1\<rparr>]\<rparr>]\<rparr>) =
     \<lparr>summary_name = ''Test Song'', summary_duration = ''4.57 seconds'', summary_tracks = 2,
      totalNotes = 3, instruments = ''Piano, Guitar''\<rparr> \<and>
   decimal_value ''4.57'' = 457 / 100 \<and>
   \<bar>(457::rat) / 100 - 642748109318783 / 140737488355328\<bar> \<le>
     1 / 200 + \<bar>642748109318783 / 140737488355328\<bar> / 2 ^ 53"
  (is "getMidiSummary (Some ?M) = ?S \<and> ?D \<and> ?B")
proof -
  let ?ts = "[\<lparr>track_name = None, instrument = Some \<lparr>instrument_name = Some ''Piano''\<rparr>, track_notes =
          [\<lparr>name = ''C4'', midi = 60, time = 0, duration = 1, velocity = 1\<rparr>,
           \<lparr>name = ''D4'', midi = 62, time = 1, duration = 1, velocity = 1\<rparr>]\<rparr>,
       \<lparr>track_name = None, instrument = Some \<lparr>instrument_name = Some ''Guitar''\<rparr>, track_notes =
          [\<lparr>name = ''E4'', midi = 64, time = 0, duration = 1, velocity = 1\<rparr>]\<rparr>]"
  have t: "tracks ?M = Some ?ts"
    by simp
  have r: "of_int (math_round (double_times (midi_duration ?M) 100)) / 100 = (457 / 100 :: rat)"
    by code_simp
  have n: "number_to_string (457 / 100) = ''4.57''"
    by code_simp
  note th = getMidiSummary_fields [OF t, unfolded r n]
  have s: "getMidiSummary (Some ?M) = ?S"
    using th by (simp add: or_default_def)
  have d: ?D
    using th by blast
  have b: ?B
    using th by simp
  from s d b show ?thesis
    by blast
qed

lemma number_to_string_examples:
  "number_to_string 4.5 = ''4.5'' \<and> number_to_string 12 = ''12'' \<and>
   number_to_string 0.05 = ''0.05'' \<and> number_to_string (- 1.25) = ''-1.25'' \<and>
   number_to_string 100.1 = ''100.1''"
  by code_simp

text \<open>
  The double products at the durations nearest to \<open>4.567\<close>, \<open>0.015\<close>, \<open>2.675\<close> and \<open>1.005\<close>.
\<close>

lemma double_times_examples:
  "to_double 4.567 = 642748109318783 / 140737488355328 \<and>
   double_times (642748109318783 / 140737488355328) 100 = 2008587841621197 / 4398046511104 \<and>
   double_times (1080863910568919 / 72057594037927936) 100 = 3 / 2 \<and>
   double_times (3011782250804019 / 1125899906842624) 100 = 535 / 2 \<and>
   double_times (1131529406376837 / 1125899906842624) 100 = 7072058789855231 / 70368744177664"
  by code_simp

subsection \<open>Layout and order of the tokens\<close>

text \<open>
  C3. The claim: tokens are separated by one space, a line break follows every 8th token,
  and no line break follows the final token. The loop tests \<open>(index + 1) % 8 === 0\<close> for
  every token, the last one too: a first track of eight notes yields a body that ends with
  a line break.
\<close>

theorem line_break_after_final_token_counterexample:
  "track_notes \<lparr>track_name = None, instrument = None, track_notes =
       replicate 8 \<lparr>name = ''C4'', midi = 60, time = 0, duration = 1 / 2, velocity = 1\<rparr>\<rparr> \<noteq> [] \<and>
   convertMidiToABC (Some \<lparr>midi_name = Some ''Eight'', midi_duration = 4, tracks = Some
      [\<lparr>track_name = None, instrument = None, track_notes =
         replicate 8 \<lparr>name = ''C4'', midi = 60, time = 0, duration = 1 / 2, velocity = 1\<rparr>\<rparr>]\<rparr>) =
   ''X:1'' @ [NL] @ ''T:Eight'' @ [NL] @ ''M:4/4'' @ [NL] @ ''L:1/4'' @ [NL] @ ''K:C'' @ [NL] @
   ''C C C C C C C C'' @ [NL]"
  by code_simp

text \<open>
  C3, as the code has it: for every model with a first track, the body after the header is
  the layout of the tokens of the sorted notes, where each token but the last is followed by one
  space and every 8th token by a line break, the final token included when the number of
  notes is a multiple of \<open>8\<close>.
\<close>

theorem abc_body_layout:
  assumes "tracks md = Some (tr # rest)"
  shows "convertMidiToABC (Some md) =
           abc_header (midi_name md) @ abc_layout (map convertNoteToABC (sortedNotes tr))"
  using assms by (rule convertMidiToABC_first)

theorem abc_body_layout_witness:
  "convertMidiToABC (Some \<lparr>midi_name = Some ''Two'', midi_duration = 1, tracks = Some
      [\<lparr>track_name = None, instrument = None, track_notes =
         [\<lparr>name = ''C4'', midi = 60, time = 0, duration = 1 / 2, velocity = 1\<rparr>,
          \<lparr>name = ''D4'', midi = 62, time = 1 / 2, duration = 1 / 2, velocity = 1\<rparr>]\<rparr>]\<rparr>) =
   ''X:1'' @ [NL] @ ''T:Two'' @ [NL] @ ''M:4/4'' @ [NL] @ ''L:1/4'' @ [NL] @ ''K:C'' @ [NL] @ ''C D''"
proof -
  have "convertMidiToABC (Some \<lparr>midi_name = Some ''Two'', midi_duration = 1, tracks = Some
      [\<lparr>track_name = None, instrument = None, track_notes =
         [\<lparr>name = ''C4'', midi = 60, time = 0, duration = 1 / 2, velocity = 1\<rparr>,
          \<lparr>name = ''D4'', midi = 62, time = 1 / 2, duration = 1 / 2, velocity = 1\<rparr>]\<rparr>]\<rparr>) =
     abc_header (midi_name \<lparr>midi_name = Some ''Two'', midi_duration = 1, tracks = Some
      [\<lparr>track_name = None, instrument = None, track_notes =
         [\<lparr>name = ''C4'', midi = 60, time = 0, duration = 1 / 2, velocity = 1\<rparr>,
          \<lparr>name = ''D4'', midi = 62, time = 1 / 2, duration = 1 / 2, velocity = 1\<rparr>]\<rparr>]\<rparr>) @
     abc_layout (map convertNoteToABC (sortedNotes \<lparr>track_name = None, instrument = None, track_notes =
         [\<lparr>name = ''C4'', midi = 60, time = 0, duration = 1 / 2, velocity = 1\<rparr>,
          \<lparr>name = ''D4'', midi = 62, time = 1 / 2, duration = 1 / 2, velocity = 1\<rparr>]\<rparr>))"
    by (rule abc_body_layout [where rest = "[]"]) simp_all
  also have "\<dots> = ''X:1'' @ [NL] @ ''T:Two'' @ [NL] @ ''M:4/4'' @ [NL] @ ''L:1/4'' @ [NL] @ ''K:C'' @ [NL] @ ''C D''"
    by code_simp
  finally show ?thesis .
qed

text \<open>
  C5. Both encoders emit the notes of the first track in ascending order of time, and the
  notes of equal time in the order they have in the input: the sorted notes are sorted by
  time, for every time \<open>t\<close> the notes at \<open>t\<close> are the same sequence before and after the sort,
  and the outputs are the descriptors and the laid-out tokens of the sorted notes, in that
  order.
\<close>

theorem encoders_sort_stably:
  assumes "tracks md = Some (tr # rest)"
  shows "sorted (map time (sortedNotes tr)) \<and>
         (\<forall>t. filter (\<lambda>n. time n = t) (sortedNotes tr) = filter (\<lambda>n. time n = t) (track_notes tr)) \<and>
         mset (sortedNotes tr) = mset (track_notes tr) \<and>
         convertMidiToVexFlow (Some md) = map to_vexFlowNote (sortedNotes tr) \<and>
         sorted (map vex_time (convertMidiToVexFlow (Some md))) \<and>
         convertMidiToABC (Some md) =
           abc_header (midi_name md) @ abc_layout (map convertNoteToABC (sortedNotes tr))"
proof -
  have srt: "sorted (map time (sortedNotes tr))"
    by (simp add: sortedNotes_def js_sort_sort_key)
  have stable: "\<forall>t. filter (\<lambda>n. time n = t) (sortedNotes tr) = filter (\<lambda>n. time n = t) (track_notes tr)"
    by (simp add: sortedNotes_def js_sort_sort_key sort_key_stable)
  have perm: "mset (sortedNotes tr) = mset (track_notes tr)"
    by (simp add: sortedNotes_def js_sort_sort_key)
  have vex: "convertMidiToVexFlow (Some md) = map to_vexFlowNote (sortedNotes tr)"
    using assms by (simp add: convertMidiToVexFlow_def convertMidiToVexFlow_first)
  have "vex_time \<circ> to_vexFlowNote = time"
    by (rule ext) (simp add: to_vexFlowNote_def)
  with srt have vsrt: "sorted (map vex_time (convertMidiToVexFlow (Some md)))"
    by (simp add: vex)
  show ?thesis
    using srt stable perm vex vsrt convertMidiToABC_first [OF assms] by blast
qed

theorem encoders_sort_stably_witness:
  "convertMidiToVexFlow (Some \<lparr>midi_name = None, midi_duration = 2, tracks = Some
      [\<lparr>track_name = None, instrument = None, track_notes =
         [\<lparr>name = ''D4'', midi = 62, time = 1, duration = 1 / 2, velocity = 1\<rparr>,
          \<lparr>name = ''C4'', midi = 60, time = 1, duration = 1 / 2, velocity = 1\<rparr>,
          \<lparr>name = ''E4'', midi = 64, time = 0, duration = 1 / 2, velocity = 1\<rparr>]\<rparr>]\<rparr>) =
     [\<lparr>keys = [''E/4''], vex_duration_code = ''q'', vex_midi = 64, vex_time = 0\<rparr>,
      \<lparr>keys = [''D/4''], vex_duration_code = ''q'', vex_midi = 62, vex_time = 1\<rparr>,
      \<lparr>keys = [''C/4''], vex_duration_code = ''q'', vex_midi = 60, vex_time = 1\<rparr>] \<and>
   convertMidiToABC (Some \<lparr>midi_name = None, midi_duration = 2, tracks = Some
      [\<lparr>track_name = None, instrument = None, track_notes =
         [\<lparr>name = ''D4'', midi = 62, time = 1, duration = 1 / 2, velocity = 1\<rparr>,
          \<lparr>name = ''C4'', midi = 60, time = 1, duration = 1 / 2, velocity = 1\<rparr>,
          \<lparr>name = ''E4'', midi = 64, time = 0, duration = 1 / 2, velocity = 1\<rparr>]\<rparr>]\<rparr>) =
     ''X:1'' @ [NL] @ ''T:Transcribed Audio'' @ [NL] @ ''M:4/4'' @ [NL] @ ''L:1/4'' @ [NL] @
     ''K:C'' @ [NL] @ ''E D C''"
  (is "convertMidiToVexFlow (Some ?M) = ?V \<and> convertMidiToABC (Some ?M) = ?A")
proof -
  let ?T = "\<lparr>track_name = None, instrument = None, track_notes =
         [\<lparr>name = ''D4'', midi = 62, time = 1, duration = 1 / 2, velocity = 1\<rparr>,
          \<lparr>name = ''C4'', midi = 60, time = 1, duration = 1 / 2, velocity = 1\<rparr>,
          \<lparr>name = ''E4'', midi = 64, time = 0, duration = 1 / 2, velocity = 1\<rparr>]\<rparr>"
  have t: "tracks ?M = Some (?T # [])"
    by simp
  note th = encoders_sort_stably [OF t]
  have "convertMidiToVexFlow (Some ?M) = map to_vexFlowNote (sortedNotes ?T)"
    using th by blast
  also have "\<dots> = ?V"
    by code_simp
  finally have v: "convertMidiToVexFlow (Some ?M) = ?V" .
  have "convertMidiToABC (Some ?M) =
      abc_header (midi_name ?M) @ abc_layout (map convertNoteToABC (sortedNotes ?T))"
    using th by blast
  also have "\<dots> = ?A"
    by code_simp
  finally have a: "convertMidiToABC (Some ?M) = ?A" .
  from v a show ?thesis ..
qed

subsection \<open>The input model is only read\<close>

text \<open>
  C8. A call of \<^verbatim>\<open>convertMidiToABC\<close> or \<^verbatim>\<open>convertMidiToVexFlow\<close> leaves the model as it
  was: every array allocated before the call is at its address with its elements in their
  order after the call, so the model reads the same from the store after the call as
  before. The sort works on the new array that the spread allocates. The results are those
  of the encoders on values.
\<close>

theorem encoders_leave_model_unchanged:
  assumes "allocated h md"
  shows "take (length h) (fst (convertMidiToABC_store h (Some md))) = h \<and>
         take (length h) (fst (convertMidiToVexFlow_store h (Some md))) = h \<and>
         load (fst (convertMidiToABC_store h (Some md))) md = load h md \<and>
         load (fst (convertMidiToVexFlow_store h (Some md))) md = load h md \<and>
         snd (convertMidiToABC_store h (Some md)) = convertMidiToABC (Some (load h md)) \<and>
         snd (convertMidiToVexFlow_store h (Some md)) = convertMidiToVexFlow (Some (load h md))"
  using load_frame [OF assms convertMidiToABC_store_frame]
    load_frame [OF assms convertMidiToVexFlow_store_frame]
    convertMidiToABC_store_frame [of h "Some md"] convertMidiToVexFlow_store_frame [of h "Some md"]
    convertMidiToABC_store_value [OF assms] convertMidiToVexFlow_store_value [OF assms]
  by simp

theorem encoders_leave_model_unchanged_witness:
  "allocated
     [[\<lparr>name = ''D4'', midi = 62, time = 1, duration = 1 / 2, velocity = 1\<rparr>,
       \<lparr>name = ''C4'', midi = 60, time = 0, duration = 1 / 2, velocity = 1\<rparr>]]
     \<lparr>ref_midi_name = None, ref_midi_duration = 2, ref_tracks = Some
        [\<lparr>ref_track_name = None, ref_instrument = None, notes_ref = 0\<rparr>]\<rparr> \<and>
   convertMidiToABC_store
     [[\<lparr>name = ''D4'', midi = 62, time = 1, duration = 1 / 2, velocity = 1\<rparr>,
       \<lparr>name = ''C4'', midi = 60, time = 0, duration = 1 / 2, velocity = 1\<rparr>]]
     (Some \<lparr>ref_midi_name = None, ref_midi_duration = 2, ref_tracks = Some
        [\<lparr>ref_track_name = None, ref_instrument = None, notes_ref = 0\<rparr>]\<rparr>) =
   ([[\<lparr>name = ''D4'', midi = 62, time = 1, duration = 1 / 2, velocity = 1\<rparr>,
      \<lparr>name = ''C4'', midi = 60, time = 0, duration = 1 / 2, velocity = 1\<rparr>],
     [\<lparr>name = ''C4'', midi = 60, time = 0, duration = 1 / 2, velocity = 1\<rparr>,
      \<lparr>name = ''D4'', midi = 62, time = 1, duration = 1 / 2, velocity = 1\<rparr>]],
    ''X:1'' @ [NL] @ ''T:Transcribed Audio'' @ [NL] @ ''M:4/4'' @ [NL] @ ''L:1/4'' @ [NL] @
    ''K:C'' @ [NL] @ ''C D'')"
  (is "allocated ?h ?md \<and> convertMidiToABC_store ?h (Some ?md) = (?h', ?abc)")
proof -
  have al: "allocated ?h ?md"
    by (simp add: allocated_def)
  have run: "convertMidiToABC_store ?h (Some ?md) = (?h', ?abc)"
    by code_simp
  have "take (length ?h) (fst (convertMidiToABC_store ?h (Some ?md))) = ?h"
    using encoders_leave_model_unchanged [OF al] by blast
  with al run show ?thesis
    by simp
qed

text \<open>Sorting the array of the track itself would reorder the notes of the model.\<close>

lemma sort_in_place_on_the_array_itself:
  "sort_in_place by_time
     [[\<lparr>name = ''D4'', midi = 62, time = 1, duration = 1 / 2, velocity = 1\<rparr>,
       \<lparr>name = ''C4'', midi = 60, time = 0, duration = 1 / 2, velocity = 1\<rparr>]] 0 =
   [[\<lparr>name = ''C4'', midi = 60, time = 0, duration = 1 / 2, velocity = 1\<rparr>,
     \<lparr>name = ''D4'', midi = 62, time = 1, duration = 1 / 2, velocity = 1\<rparr>]]"
  by code_simp

end
